theory Spec2Isabelle
  imports Complex_Main "HOL-Library.Word"
begin

section \<open>Exceptions of the Python source\<close>

text \<open>
  Every exception that one of the embedded functions can raise is a value of this type;
  a function that can raise returns \<open>py_error + 'a\<close>, with \<open>Inl\<close> for the exception.
\<close>

datatype py_error =
    AttributeError
  | TypeError
  | ValueError
  | OverflowError
  | IndexError
  | KeyError
  | JSONDecodeError
  | UnicodeDecodeError

section \<open>Animated sprite: \<open>AnimatedWebPLabel.update_frame\<close>\<close>

text \<open>
  The label keeps the decoded frames, the playback position \<open>current_frame\<close> and the
  pixmap it currently shows (what \<open>setPixmap\<close> stored last; \<open>None\<close> before the first
  call). The pixmap type is left open.
\<close>

record 'p sprite =
  frames :: "'p list"
  current_frame :: int
  pixmap :: "'p option"

text \<open>
  \<open>self.frames[self.current_frame]\<close>: an index from 0 up to the length reads that
  element, an index from \<open>-len\<close> up to \<open>-1\<close> reads from the end, anything else raises.
\<close>

definition py_index :: "'a list \<Rightarrow> int \<Rightarrow> py_error + 'a" where
  "py_index xs i =
     (if 0 \<le> i \<and> i < int (length xs) then Inr (xs ! nat i)
      else if - int (length xs) \<le> i \<and> i < 0 then Inr (xs ! nat (int (length xs) + i))
      else Inl IndexError)"

text \<open>
  \<^verbatim>\<open>
  def update_frame(self):
      if self.frames:
          self.setPixmap(self.frames[self.current_frame])
          self.current_frame = (self.current_frame + 1) % len(self.frames)
  \<close>
\<close>

definition update_frame :: "'p sprite \<Rightarrow> py_error + 'p sprite" where
  "update_frame s =
     (if frames s \<noteq> [] then
        (case py_index (frames s) (current_frame s) of
           Inl e \<Rightarrow> Inl e
         | Inr f \<Rightarrow>
             Inr (s\<lparr>pixmap := Some f,
                    current_frame := (current_frame s + 1) mod int (length (frames s))\<rparr>))
      else Inr s)"

text \<open>\<open>next_frame\<close>, the timer's slot, only calls \<open>update_frame\<close>.\<close>

definition next_frame :: "'p sprite \<Rightarrow> py_error + 'p sprite" where
  "next_frame s = update_frame s"

text \<open>
  The position is set to 0 by \<open>set_webp\<close> and \<open>fade_in\<close> and otherwise only changed by
  \<open>update_frame\<close>; it is a valid index whenever there are frames.
\<close>

definition position_ok :: "'p sprite \<Rightarrow> bool" where
  "position_ok s \<longleftrightarrow> 0 \<le> current_frame s \<and> current_frame s < int (length (frames s))"

section \<open>Values decoded from JSON\<close>

text \<open>
  Card data reaches the widget as the result of \<open>json.loads\<close>: \<open>None\<close>, booleans,
  unbounded integers, floats, strings, lists and dictionaries (with string keys, in
  insertion order). A float is either a finite double, given by its exact rational value,
  or one of the three special values that \<open>json.loads\<close> also produces (from
  \<open>Infinity\<close>, \<open>-Infinity\<close>, \<open>NaN\<close> and from literals such as \<open>1e999\<close>).
\<close>

datatype pyfloat = Finite rat | PosInf | NegInf | NaN

datatype json =
    JNull
  | JBool bool
  | JInt int
  | JFloat pyfloat
  | JStr string
  | JArr "json list"
  | JObj "(string \<times> json) list"

text \<open>Truncation toward zero, as \<open>int(x)\<close> does on a float.\<close>

definition trunc_rat :: "rat \<Rightarrow> int" where
  "trunc_rat q = (if 0 \<le> q then \<lfloor>q\<rfloor> else \<lceil>q\<rceil>)"

text \<open>
  The builtin \<open>int(v)\<close>. The conversion of a string (optional sign, digits, surrounding
  white space; \<open>ValueError\<close> for anything else) belongs to the interpreter and is the
  parameter \<open>str_int\<close>, with \<open>None\<close> for a string that is rejected.
\<close>

fun py_int :: "(string \<Rightarrow> int option) \<Rightarrow> json \<Rightarrow> py_error + int" where
  "py_int str_int JNull = Inl TypeError"
| "py_int str_int (JBool b) = Inr (if b then 1 else 0)"
| "py_int str_int (JInt n) = Inr n"
| "py_int str_int (JFloat (Finite q)) = Inr (trunc_rat q)"
| "py_int str_int (JFloat NaN) = Inl ValueError"
| "py_int str_int (JFloat PosInf) = Inl OverflowError"
| "py_int str_int (JFloat NegInf) = Inl OverflowError"
| "py_int str_int (JStr s) = (case str_int s of None \<Rightarrow> Inl ValueError | Some n \<Rightarrow> Inr n)"
| "py_int str_int (JArr vs) = Inl TypeError"
| "py_int str_int (JObj kvs) = Inl TypeError"

section \<open>Card compositor: level and rank stars\<close>

text \<open>A \<open>QRect\<close> with Qt's conventions: \<open>right = x + width - 1\<close>.\<close>

record qrect =
  rect_x :: int
  rect_y :: int
  rect_width :: int
  rect_height :: int

definition rect_left :: "qrect \<Rightarrow> int" where
  "rect_left r = rect_x r"

definition rect_top :: "qrect \<Rightarrow> int" where
  "rect_top r = rect_y r"

definition rect_right :: "qrect \<Rightarrow> int" where
  "rect_right r = rect_x r + rect_width r - 1"

text \<open>
  The star image: whether the pixmap is null (the asset could not be loaded), and the
  width Qt gives it when it is scaled to a height.
\<close>

record star_pixmap =
  isNull :: bool
  scaled_width :: "int \<Rightarrow> int"

text \<open>
  \<^verbatim>\<open>
  try:
      level = int(level_value)
  except (ValueError, TypeError):
      level = 0
  \<close>
  Any other exception of \<open>int\<close> leaves the function.
\<close>

definition level_of :: "(string \<Rightarrow> int option) \<Rightarrow> json \<Rightarrow> py_error + int" where
  "level_of str_int level_value =
     (case py_int str_int level_value of
        Inr n \<Rightarrow> Inr n
      | Inl e \<Rightarrow> if e = ValueError \<or> e = TypeError then Inr 0 else Inl e)"

text \<open>
  \<open>draw_level_stars\<close>; the result is the list of positions of the \<open>drawPixmap\<close> calls,
  in the order of the calls.
\<close>

definition draw_level_stars ::
  "(string \<Rightarrow> int option) \<Rightarrow> star_pixmap \<Rightarrow> qrect \<Rightarrow> json \<Rightarrow> int \<Rightarrow> py_error + (int \<times> int) list"
where
  "draw_level_stars str_int level_star rect level_value max_stars =
     (case level_of str_int level_value of
        Inl e \<Rightarrow> Inl e
      | Inr level \<Rightarrow>
          (let stars_count = min level max_stars in
           if isNull level_star \<or> stars_count \<le> 0 then Inr []
           else
             (let star_height = rect_height rect;
                  star_width = scaled_width level_star star_height;
                  gap = 4
              in Inr (map (\<lambda>i. (rect_right rect - (int i + 1) * star_width - int i * gap,
                                  rect_top rect + (rect_height rect - star_height) div 2))
                          [0 ..< nat stars_count]))))"

text \<open>\<open>draw_rank_stars\<close>: with exactly 13 stars the rectangle is moved and widened first.\<close>

definition draw_rank_stars ::
  "(string \<Rightarrow> int option) \<Rightarrow> star_pixmap \<Rightarrow> qrect \<Rightarrow> json \<Rightarrow> int \<Rightarrow> py_error + (int \<times> int) list"
where
  "draw_rank_stars str_int rank_star rect level_value max_stars =
     (case level_of str_int level_value of
        Inl e \<Rightarrow> Inl e
      | Inr level \<Rightarrow>
          (let stars_count = min level max_stars in
           if isNull rank_star \<or> stars_count \<le> 0 then Inr []
           else
             (let star_height = rect_height rect;
                  star_width = scaled_width rank_star star_height;
                  gap = 4;
                  rect' = (if stars_count = 13
                           then \<lparr>rect_x = rect_x rect - 18, rect_y = rect_y rect,
                                 rect_width = rect_width rect + star_width div 2,
                                 rect_height = rect_height rect\<rparr>
                           else rect)
              in Inr (map (\<lambda>i. (rect_left rect' - 25 + int i * (star_width + gap),
                                  rect_top rect' + (rect_height rect' - star_height) div 2))
                          [0 ..< nat stars_count]))))"

text \<open>The specification's \<open>clamp(x, lo, hi)\<close>.\<close>

definition clamp :: "int \<Rightarrow> int \<Rightarrow> int \<Rightarrow> int" where
  "clamp x lo hi = (if x < lo then lo else if hi < x then hi else x)"

section \<open>Card compositor: fitting the description text\<close>

datatype font_weight = Light | Normal

record qfont =
  family :: string
  pointSize :: int
  weight :: font_weight
  letterSpacing :: rat
  fullHinting :: bool

record font_table =
  lore_font :: string
  main_font :: string

text \<open>\<open>str.lower\<close> on the ASCII letters (a \<open>char\<close> is a byte).\<close>

definition ascii_lower :: "char \<Rightarrow> char" where
  "ascii_lower c =
     (if (65::nat) \<le> of_char c \<and> of_char c \<le> (90::nat)
      then char_of (of_char c + (32::nat)) else c)"

text \<open>\<open>text.strip(chars)\<close>: drop the leading and the trailing characters that are in \<open>chars\<close>.\<close>

definition py_strip :: "char list \<Rightarrow> string \<Rightarrow> string" where
  "py_strip chars s = rev (dropWhile (\<lambda>c. c \<in> set chars) (rev (dropWhile (\<lambda>c. c \<in> set chars) s)))"

text \<open>\<open>range(start, stop, -1)\<close>.\<close>

definition range_down :: "int \<Rightarrow> int \<Rightarrow> int list" where
  "range_down start stop = map (\<lambda>k. start - int k) [0 ..< nat (start - stop)]"

text \<open>
  The inner loop over the letter spacing. The spacings are Python floats; \<open>0.0\<close>, \<open>0.5\<close>
  and the bounds used by the callers are dyadic, so the subtraction is exact and the
  spacing is modelled by its rational value. \<open>mk\<close> builds the font for a spacing and
  \<open>fits\<close> is the test \<open>bounding.height() <= rect.height()\<close>.
  \<^verbatim>\<open>
  letter_spacing = 0.0
  while letter_spacing >= min_letter_spacing:
      font = ...
      if bounding.height() <= rect.height():
          chosen_font = font
          break
      letter_spacing -= 0.5
  \<close>
\<close>

function spacing_loop :: "(rat \<Rightarrow> qfont) \<Rightarrow> (qfont \<Rightarrow> bool) \<Rightarrow> rat \<Rightarrow> rat \<Rightarrow> qfont option" where
  "spacing_loop mk fits min_letter_spacing letter_spacing =
     (if letter_spacing \<ge> min_letter_spacing then
        (if fits (mk letter_spacing) then Some (mk letter_spacing)
         else spacing_loop mk fits min_letter_spacing (letter_spacing - 1 / 2))
      else None)"
  by pat_completeness auto
termination
proof (relation "measure (\<lambda>(mk, fits, lo, ls). nat (\<lceil>(ls - lo) * 2\<rceil> + 1))")
  show "wf (measure (\<lambda>(mk, fits, lo, ls). nat (\<lceil>(ls - lo) * 2\<rceil> + 1)))"
    by simp
next
  fix mk :: "rat \<Rightarrow> qfont" and fits :: "qfont \<Rightarrow> bool" and lo ls :: rat
  assume "lo \<le> ls"
  then have "0 \<le> (ls - lo) * 2"
    by simp
  then have nonneg: "0 \<le> \<lceil>(ls - lo) * 2\<rceil>"
    by simp
  have eq: "(ls - 1 / 2 - lo) * 2 = (ls - lo) * 2 - 1"
    by (simp add: algebra_simps)
  have "\<lceil>(ls - 1 / 2 - lo) * 2\<rceil> = \<lceil>(ls - lo) * 2\<rceil> - 1"
    unfolding eq by (rule ceiling_diff_one)
  with nonneg show "((mk, fits, lo, ls - 1 / 2), (mk, fits, lo, ls))
      \<in> measure (\<lambda>(mk, fits, lo, ls). nat (\<lceil>(ls - lo) * 2\<rceil> + 1))"
    by simp
qed

declare spacing_loop.simps [simp del]

text \<open>The outer loop over the font sizes stops at the first size for which the inner loop chose a font.\<close>

fun size_loop :: "(int \<Rightarrow> qfont option) \<Rightarrow> int list \<Rightarrow> qfont option" where
  "size_loop inner [] = None"
| "size_loop inner (font_size # sizes) =
     (case inner font_size of
        Some font \<Rightarrow> Some font
      | None \<Rightarrow> size_loop inner sizes)"

text \<open>
  \<open>draw_fitted_description\<close>. \<open>bounding_height font rect text\<close> is the height of
  \<open>QFontMetrics(font).boundingRect(rect, Qt.TextWordWrap, text)\<close>, which Qt computes. The
  result is the font given to \<open>painter.setFont\<close> and the text given to \<open>painter.drawText\<close>.
\<close>

definition draw_fitted_description ::
  "font_table \<Rightarrow> (qfont \<Rightarrow> qrect \<Rightarrow> string \<Rightarrow> int) \<Rightarrow> string \<Rightarrow> qrect \<Rightarrow> string
     \<Rightarrow> int \<Rightarrow> int \<Rightarrow> rat \<Rightarrow> qfont \<times> string"
where
  "draw_fitted_description fonts bounding_height frame_type rect text0
       max_font_size min_font_size min_letter_spacing =
     (let lore = (map ascii_lower frame_type = ''normal'');
          text = (if lore then py_strip [CHR 0x27, CHR 0x22] text0 else text0);
          mk = (\<lambda>font_size letter_spacing.
                  \<lparr>family = (if lore then lore_font fonts else main_font fonts),
                   pointSize = font_size, weight = Light,
                   letterSpacing = letter_spacing, fullHinting = True\<rparr>);
          fits = (\<lambda>font. bounding_height font rect text \<le> rect_height rect);
          found = size_loop (\<lambda>font_size. spacing_loop (mk font_size) fits min_letter_spacing 0)
                    (range_down max_font_size (min_font_size - 1));
          chosen_font = (case found of
                           Some font \<Rightarrow> font
                         | None \<Rightarrow>
                             \<lparr>family = main_font fonts, pointSize = min_font_size,
                              weight = Normal, letterSpacing = min_letter_spacing,
                              fullHinting = False\<rparr>)
      in (chosen_font, text))"

text \<open>
  The search as the specification words it, independently of the loop headers: the sizes
  are the integers from the minimum to the maximum, taken in descending order, and each
  size is combined with the spacings 0, -0.5 and -1.0 in that order.
\<close>

definition descending_sizes :: "int \<Rightarrow> int \<Rightarrow> int list" where
  "descending_sizes max_font_size min_font_size = rev [min_font_size..max_font_size]"

definition fit_candidates :: "int \<Rightarrow> int \<Rightarrow> (int \<times> rat) list" where
  "fit_candidates max_font_size min_font_size =
     concat (map (\<lambda>font_size. map (\<lambda>ls. (font_size, ls)) [0, - (1 / 2), - 1])
                 (descending_sizes max_font_size min_font_size))"

text \<open>
  The choice as the specification words it: the first candidate that fits, else the
  smallest size with the most negative spacing.
\<close>

definition spec_font_fit ::
  "font_table \<Rightarrow> (qfont \<Rightarrow> qrect \<Rightarrow> string \<Rightarrow> int) \<Rightarrow> string \<Rightarrow> qrect \<Rightarrow> string
     \<Rightarrow> int \<Rightarrow> int \<Rightarrow> qfont \<times> string"
where
  "spec_font_fit fonts bounding_height frame_type rect text0 max_font_size min_font_size =
     (let lore = (map ascii_lower frame_type = ''normal'');
          text = (if lore then py_strip [CHR 0x27, CHR 0x22] text0 else text0);
          font_of = (\<lambda>(font_size, ls).
                  \<lparr>family = (if lore then lore_font fonts else main_font fonts),
                   pointSize = font_size, weight = Light,
                   letterSpacing = ls, fullHinting = True\<rparr>)
      in (case find (\<lambda>c. bounding_height (font_of c) rect text \<le> rect_height rect)
                 (fit_candidates max_font_size min_font_size) of
            Some c \<Rightarrow> (font_of c, text)
          | None \<Rightarrow> (\<lparr>family = main_font fonts, pointSize = min_font_size,
                       weight = Normal, letterSpacing = - 1, fullHinting = False\<rparr>, text)))"

section \<open>Double and single precision arithmetic\<close>

text \<open>
  Python floats are IEEE 754 binary64 values and the gradient mask is a NumPy \<open>float32\<close>
  array. A finite float is modelled by its exact rational value; an arithmetic operation
  computes the exact rational result and rounds it to the nearest representable value,
  ties to even. \<open>fl_round p emin\<close> is that rounding for a format with \<open>p\<close> significant
  bits and least normal exponent \<open>emin\<close> (gradual underflow included; overflow does not
  occur for the magnitudes computed here, all below 256).
\<close>

text \<open>\<open>bit_length n\<close> is the number of binary digits of a positive integer, 0 otherwise.\<close>

function bit_length :: "int \<Rightarrow> int" where
  "bit_length n = (if n \<le> 0 then 0 else 1 + bit_length (n div 2))"
  by pat_completeness auto
termination
  by (relation "measure nat") auto

declare bit_length.simps [simp del]

definition pow2 :: "int \<Rightarrow> rat" where
  "pow2 k = (if 0 \<le> k then 2 ^ nat k else 1 / 2 ^ nat (- k))"

text \<open>The exponent of a positive rational: the \<open>e\<close> with \<open>2^e \<le> q < 2^(e+1)\<close>.\<close>

definition ilog2 :: "rat \<Rightarrow> int" where
  "ilog2 q = (if 1 \<le> q then bit_length \<lfloor>q\<rfloor> - 1 else - bit_length (\<lceil>1 / q\<rceil> - 1))"

definition round_half_even :: "rat \<Rightarrow> int" where
  "round_half_even x =
     (let f = \<lfloor>x\<rfloor>; r = x - of_int f
      in if r < 1 / 2 then f else if 1 / 2 < r then f + 1 else if even f then f else f + 1)"

definition fl_round :: "nat \<Rightarrow> int \<Rightarrow> rat \<Rightarrow> rat" where
  "fl_round p emin q =
     (if q = 0 then 0
      else (let e = max (ilog2 \<bar>q\<bar>) emin; ulp = pow2 (e - int p + 1)
            in of_int (round_half_even (q / ulp)) * ulp))"

definition binary64 :: "rat \<Rightarrow> rat" where
  "binary64 = fl_round 53 (- 1022)"


section \<open>Raster frames\<close>

text \<open>
  An RGBA frame has 8-bit channels. A frame is its size and its pixels by column \<open>x\<close> and
  row \<open>y\<close>; only the pixels with \<open>0 \<le> x < width\<close> and \<open>0 \<le> y < height\<close> exist, and no
  operation below reads \<open>im_px\<close> of a frame outside them.
\<close>

type_synonym u8 = "8 word"

datatype pixel = RGBA (red: u8) (green: u8) (blue: u8) (alpha: u8)

record image =
  im_width :: nat
  im_height :: nat
  im_px :: "int \<Rightarrow> int \<Rightarrow> pixel"

definition inside :: "image \<Rightarrow> int \<Rightarrow> int \<Rightarrow> bool" where
  "inside img x y \<longleftrightarrow> 0 \<le> x \<and> x < int (im_width img) \<and> 0 \<le> y \<and> y < int (im_height img)"

text \<open>An operation that Pillow applies pixel by pixel.\<close>

definition map_pixels :: "(pixel \<Rightarrow> pixel) \<Rightarrow> image \<Rightarrow> image" where
  "map_pixels f img = img\<lparr>im_px := (\<lambda>x y. f (im_px img x y))\<rparr>"

text \<open>
  What the imaging library (Pillow, with NumPy) contributes and the repository does not
  define: the two colour space conversions on the three colour channels, the two
  enhancers of \<open>ImageEnhance\<close> as functions of the factor and a pixel, and the exception,
  if any, with which the library rejects a crop box before the frame is modified (a box
  with right < left, an empty box or an oversized one, depending on the library).
\<close>

record pillow =
  rgb2hsv :: "u8 \<times> u8 \<times> u8 \<Rightarrow> u8 \<times> u8 \<times> u8"
  hsv2rgb :: "u8 \<times> u8 \<times> u8 \<Rightarrow> u8 \<times> u8 \<times> u8"
  enhance_color :: "rat \<Rightarrow> pixel \<Rightarrow> pixel"
  enhance_brightness :: "rat \<Rightarrow> pixel \<Rightarrow> pixel"
  box_error :: "int \<times> int \<times> int \<times> int \<Rightarrow> py_error option"

text \<open>
  \<open>frame.crop(box)\<close> with \<open>box = (left, upper, right, lower)\<close>: a copy of that
  rectangle, transparent black where the box leaves the frame.
\<close>

definition crop :: "image \<Rightarrow> int \<times> int \<times> int \<times> int \<Rightarrow> image" where
  "crop img box =
     (case box of (left, upper, right, lower) \<Rightarrow>
        \<lparr>im_width = nat (right - left), im_height = nat (lower - upper),
         im_px = (\<lambda>x y. if inside img (left + x) (upper + y)
                          then im_px img (left + x) (upper + y) else RGBA 0 0 0 0)\<rparr>)"

text \<open>\<open>frame.paste(src, box)\<close> without a mask: the pixels of the box that are in the frame are overwritten.\<close>

definition paste :: "image \<Rightarrow> image \<Rightarrow> int \<times> int \<times> int \<times> int \<Rightarrow> image" where
  "paste frame src box =
     (case box of (left, upper, right, lower) \<Rightarrow>
        frame\<lparr>im_px := (\<lambda>x y. if left \<le> x \<and> x < right \<and> upper \<le> y \<and> y < lower \<and> inside frame x y
                               then im_px src (x - left) (y - upper) else im_px frame x y)\<rparr>)"

text \<open>
  \<^verbatim>\<open>
  mask = (orig_arr[:, :, 3] ... )
  mod_arr[mask] = orig_arr[mask]
  \<close>
  with the test on the original alpha as a parameter.
\<close>

definition restore_where :: "(u8 \<Rightarrow> bool) \<Rightarrow> image \<Rightarrow> image \<Rightarrow> image" where
  "restore_where keep orig_arr mod_arr =
     mod_arr\<lparr>im_px := (\<lambda>x y. if keep (alpha (im_px orig_arr x y))
                                then im_px orig_arr x y else im_px mod_arr x y)\<rparr>"

section \<open>Colour adjuster: \<open>adjust_hue\<close> and \<open>adjust_frame\<close>\<close>

text \<open>\<open>shift = int((hue / 360.0) * 255)\<close>: two double operations, then truncation toward zero.\<close>

definition hue_shift :: "rat \<Rightarrow> int" where
  "hue_shift hue = trunc_rat (binary64 (binary64 (hue / 360) * 255))"

text \<open>\<open>(np_h.astype(int) + shift) % 256\<close>, stored as \<open>uint8\<close>.\<close>

definition shift_hue_channel :: "int \<Rightarrow> u8 \<Rightarrow> u8" where
  "shift_hue_channel shift h = word_of_int ((uint h + shift) mod 256)"

text \<open>
  \<open>adjust_hue\<close> on one pixel: to HSV, shift the hue band, merge with the untouched
  saturation and value bands, back to RGBA. The conversion back goes through RGB and sets
  the alpha channel to 255 (the docstring: "alpha resets").
\<close>

definition adjust_hue_pixel :: "pillow \<Rightarrow> rat \<Rightarrow> pixel \<Rightarrow> pixel" where
  "adjust_hue_pixel lib hue p =
     (case rgb2hsv lib (red p, green p, blue p) of (h, s, v) \<Rightarrow>
        (case hsv2rgb lib (shift_hue_channel (hue_shift hue) h, s, v) of (r, g, b) \<Rightarrow>
           RGBA r g b 255))"

definition adjust_hue :: "pillow \<Rightarrow> image \<Rightarrow> rat \<Rightarrow> image" where
  "adjust_hue lib img hue = map_pixels (adjust_hue_pixel lib hue) img"

text \<open>
  The three guarded steps that both branches of \<open>adjust_frame\<close> apply:
  \<^verbatim>\<open>
  if hue != 0.0:        mod = self.adjust_hue(mod, hue)
  if saturation != 1.0: mod = ImageEnhance.Color(mod).enhance(saturation)
  if brightness != 0:   mod = ImageEnhance.Brightness(mod).enhance(1.0 + (brightness / 150.0))
  \<close>
\<close>

definition adjust_colors :: "pillow \<Rightarrow> image \<Rightarrow> rat \<Rightarrow> rat \<Rightarrow> rat \<Rightarrow> image" where
  "adjust_colors lib img hue saturation brightness =
     (let m1 = (if hue \<noteq> 0 then adjust_hue lib img hue else img);
          m2 = (if saturation \<noteq> 1 then map_pixels (enhance_color lib saturation) m1 else m1);
          m3 = (if brightness \<noteq> 0
                then map_pixels (enhance_brightness lib (binary64 (1 + binary64 (brightness / 150)))) m2
                else m2)
      in m3)"

text \<open>
  \<open>adjust_frame\<close>. The region is \<open>None\<close> or \<open>(x, y, w, h)\<close>. With a region the frame is
  modified in place by \<open>paste\<close> and returned; without one a new frame is returned.
\<close>

definition adjust_frame ::
  "pillow \<Rightarrow> image \<Rightarrow> rat \<Rightarrow> rat \<Rightarrow> rat \<Rightarrow> (int \<times> int \<times> int \<times> int) option \<Rightarrow> py_error + image"
where
  "adjust_frame lib frame hue saturation brightness region =
     (case region of
        Some (x, y, w, h) \<Rightarrow>
          (let region_box = (x, y, x + w, y + h) in
           case box_error lib region_box of
             Some e \<Rightarrow> Inl e
           | None \<Rightarrow>
               (let orig_region = crop frame region_box;
                    mod_region = adjust_colors lib orig_region hue saturation brightness;
                    mod_region = restore_where (\<lambda>a. a < 255) orig_region mod_region
                in Inr (paste frame mod_region region_box)))
      | None \<Rightarrow>
          (let orig = frame;
               modified = adjust_colors lib frame hue saturation brightness
           in Inr (restore_where (\<lambda>a. a = 0) orig modified)))"

section \<open>Colour adjuster: \<open>apply_gradient\<close>\<close>






section \<open>Transition orchestrator: \<open>MainWindow.set_overlay_custom\<close>\<close>

text \<open>
  The main window holds \<open>active_border\<close> and a number of animated labels. What the
  function does to the labels, the animations, the sound and the timers is recorded as a
  list of effects, in the order of the calls. \<open>active_border\<close> is a Python value: it starts
  as the string \<open>token\<close> and is later whatever \<open>frame\<close> the server passes, which for a new
  card is the \<open>frameType\<close> entry of the decoded card data.
\<close>

datatype label =
    SpellLabel | TrapLabel | XyzLabel | FusionLabel | NormalLabel | MainLabel
  | RitualLabel | LinkLabel | SynchroLabel | PendulumLabel | DescLabel | ArtframeLabel

datatype 'pm effect =
    FadeOut label int
  | FadeIn label int
  | OpacityAnimation rat rat
  | TransitionVisible bool
  | TransitionRestart
  | PlaySound
  | UpdateOverlayAfter int 'pm
  | EventLoopFor int

text \<open>\<open>s.startswith(p)\<close> and \<open>p in s\<close> on strings.\<close>

definition startswith :: "string \<Rightarrow> string \<Rightarrow> bool" where
  "startswith s p \<longleftrightarrow> take (length p) s = p"

fun contains :: "string \<Rightarrow> string \<Rightarrow> bool" where
  "contains [] p = (p = [])"
| "contains (c # cs) p = (startswith (c # cs) p \<or> contains cs p)"

text \<open>
  \<open>get_border_widget\<close>. The first two tests are equalities and are false for a value that
  is not a string; the third calls \<open>border.startswith\<close>, which such a value does not have.
\<close>

definition get_border_widget :: "json \<Rightarrow> py_error + label option" where
  "get_border_widget border =
     (case border of
        JStr b \<Rightarrow>
          Inr (if b = ''spell'' then Some SpellLabel
               else if b = ''trap'' then Some TrapLabel
               else if startswith b ''xyz'' then Some XyzLabel
               else if startswith b ''fusion'' then Some FusionLabel
               else if startswith b ''normal'' then Some NormalLabel
               else if startswith b ''effect'' then Some MainLabel
               else if startswith b ''ritual'' then Some RitualLabel
               else if startswith b ''link'' then Some LinkLabel
               else if startswith b ''synchro'' then Some SynchroLabel
               else None)
      | _ \<Rightarrow> Inl AttributeError)"

text \<open>\<open>fade_border\<close>: the effects it adds, or the exception of \<open>get_border_widget\<close>.\<close>

definition fade_border :: "json \<Rightarrow> (label \<Rightarrow> int \<Rightarrow> 'pm effect) \<Rightarrow> int \<Rightarrow> py_error + 'pm effect list" where
  "fade_border border fade_method duration =
     (case get_border_widget border of
        Inl e \<Rightarrow> Inl e
      | Inr None \<Rightarrow> Inr []
      | Inr (Some widget) \<Rightarrow> Inr [fade_method widget duration])"

text \<open>
  \<open>"_pendulum" in self.active_border\<close>. It is only evaluated after \<open>fade_border\<close> returned
  for the same value, that is on a string.
\<close>

definition is_pendulum :: "json \<Rightarrow> bool" where
  "is_pendulum border = (case border of JStr b \<Rightarrow> contains b ''_pendulum'' | _ \<Rightarrow> False)"

record 'pm main_window =
  active_border :: json
  effects :: "'pm effect list"

text \<open>
  \<open>set_overlay_custom\<close>. The result is the window afterwards and the exception, if one
  was raised; an exception raised after the assignment to \<open>active_border\<close> leaves the new
  value in place. The nested event loop that bridges the 375 ms is an effect of its own;
  what other handlers do while it runs is not part of this function.
\<close>

definition set_overlay_custom ::
  "'pm main_window \<Rightarrow> json \<Rightarrow> 'pm \<Rightarrow> 'pm main_window \<times> py_error option"
where
  "set_overlay_custom w frame card_pixmap =
     (let fadeout_duration = 250; fadein_duration = 500 in
      case fade_border (active_border w) FadeOut fadeout_duration of
        Inl e \<Rightarrow> (w, Some e)
      | Inr out \<Rightarrow>
          (let w1 = w\<lparr>effects := effects w @ out @
                      (if is_pendulum (active_border w)
                       then [FadeOut PendulumLabel fadeout_duration,
                             FadeIn DescLabel fadein_duration,
                             FadeIn ArtframeLabel fadein_duration]
                       else [])\<rparr>;
               w2 = w1\<lparr>active_border := frame\<rparr>
           in case fade_border (active_border w2) FadeIn fadein_duration of
                Inl e \<Rightarrow> (w2, Some e)
              | Inr inn \<Rightarrow>
                  (w2\<lparr>effects := effects w2 @ inn @
                        (if is_pendulum (active_border w2)
                         then [FadeIn PendulumLabel fadein_duration,
                               FadeOut DescLabel fadeout_duration,
                               FadeOut ArtframeLabel fadeout_duration]
                         else []) @
                        [OpacityAnimation 1 0, TransitionVisible True, TransitionRestart,
                         PlaySound, UpdateOverlayAfter 350 card_pixmap, EventLoopFor 375,
                         OpacityAnimation 0 1, TransitionVisible False]\<rparr>, None)))"

section \<open>Ingestion server: \<open>OverlayServer.read_client\<close>\<close>

text \<open>
  A byte is a \<open>char\<close>. What the runtime and the compositor contribute: \<open>decode\<close> is
  \<open>bytes.decode("utf-8")\<close>, \<open>strip\<close> and \<open>json.loads\<close> on the accumulated bytes, with the
  exception it raises or the decoded document; \<open>loads\<close> is \<open>json.loads\<close> on the nested
  card data; \<open>render\<close> builds the \<open>CardMakerWidget\<close> from the card data, the image and
  the extra arguments and renders it; \<open>default_pixmap\<close> is \<open>QPixmap("Default.png")\<close>.
\<close>

type_synonym bytes = "char list"

record 'pm runtime =
  decode :: "bytes \<Rightarrow> py_error + json"
  loads :: "string \<Rightarrow> py_error + json"
  render :: "json \<Rightarrow> json \<Rightarrow> json \<times> json \<times> json \<Rightarrow> py_error + 'pm"
  default_pixmap :: "'pm"

text \<open>\<open>d.get(key, default)\<close> on a decoded value: only a dictionary has \<open>get\<close>.\<close>

definition py_get :: "json \<Rightarrow> string \<Rightarrow> json \<Rightarrow> py_error + json" where
  "py_get d key dflt =
     (case d of
        JObj kvs \<Rightarrow> Inr (case map_of kvs key of Some v \<Rightarrow> v | None \<Rightarrow> dflt)
      | _ \<Rightarrow> Inl AttributeError)"

text \<open>
  The lines of \<open>read_client\<close> between the clearing of the buffer and the acknowledgement:
  the frame type and the pixmap handed to the overlay, or the exception that leaves the
  handler.
\<close>

definition dispatch :: "'pm runtime \<Rightarrow> json \<Rightarrow> py_error + json \<times> 'pm" where
  "dispatch rt data =
     (case py_get data ''status'' JNull of
        Inl e \<Rightarrow> Inl e
      | Inr status \<Rightarrow>
          if status = JStr ''NewCard'' then
            (case py_get data ''card_data'' (JStr '''') of
               Inl e \<Rightarrow> Inl e
             | Inr raw \<Rightarrow>
                 (case (case raw of JStr s \<Rightarrow> loads rt s | _ \<Rightarrow> Inl TypeError) of
                    Inl e \<Rightarrow> Inl e
                  | Inr card_data \<Rightarrow>
                      (case py_get data ''card_image'' (JStr '''') of
                         Inl e \<Rightarrow> Inl e
                       | Inr image_path \<Rightarrow>
                           (case py_get card_data ''frameType'' (JStr ''Default'') of
                              Inl e \<Rightarrow> Inl e
                            | Inr frame_type \<Rightarrow>
                                (case (py_get data ''set_string'' (JStr ''''),
                                       py_get data ''edition'' (JStr ''''),
                                       py_get data ''passcode'' (JStr '''')) of
                                   (Inr set_string, Inr edition, Inr passcode) \<Rightarrow>
                                     (case render rt card_data image_path
                                             (set_string, edition, passcode) of
                                        Inl e \<Rightarrow> Inl e
                                      | Inr card_pix \<Rightarrow> Inr (frame_type, card_pix))
                                 | _ \<Rightarrow> Inl AttributeError)))))
          else Inr (JStr ''Default'', default_pixmap rt))"

text \<open>
  The server's part of the process state: the accumulator of each open connection (the
  dictionary \<open>self.buffers\<close>), the bytes written to each socket, the sockets on which
  \<open>disconnectFromHost\<close> was called, the calls scheduled with \<open>QTimer.singleShot(0, ...)\<close>
  in the order they were scheduled, and the main window.
\<close>

record 'pm process =
  buffers :: "nat \<rightharpoonup> bytes"
  written :: "nat \<Rightarrow> bytes"
  disconnecting :: "nat set"
  scheduled :: "(json \<times> 'pm) list"
  window :: "'pm main_window"

text \<open>
  What one call of \<open>read_client\<close> came to: no sender; the accumulated bytes are not yet a
  JSON document; another exception before a document was decoded; or a document was
  decoded and handed to the dispatch logic, with the exception that logic raised, if any.
\<close>

datatype event =
    NoSender
  | Incomplete
  | Failed py_error
  | Dispatched json "py_error option"

text \<open>\<open>handle_new_connection\<close> and the slot connected to \<open>disconnected\<close>.\<close>

definition handle_new_connection :: "'pm process \<Rightarrow> nat \<Rightarrow> 'pm process" where
  "handle_new_connection p client_connection = p\<lparr>buffers := (buffers p)(client_connection \<mapsto> [])\<rparr>"

definition on_disconnected :: "'pm process \<Rightarrow> nat \<Rightarrow> 'pm process" where
  "on_disconnected p client_connection = p\<lparr>buffers := (buffers p)(client_connection := None)\<rparr>"

text \<open>
  \<open>read_client\<close> for the sender \<open>socket\<close> and the bytes \<open>readAll\<close> returned. Only
  \<open>JSONDecodeError\<close> is caught; any other exception of the decoding leaves the slot, after
  the new bytes were appended. An exception in a slot does not end the process.
\<close>

definition read_client ::
  "'pm runtime \<Rightarrow> 'pm process \<Rightarrow> nat option \<Rightarrow> bytes \<Rightarrow> 'pm process \<times> event"
where
  "read_client rt p sender new_data =
     (case sender of
        None \<Rightarrow> (p, NoSender)
      | Some socket \<Rightarrow>
          (case buffers p socket of
             None \<Rightarrow> (p, Failed KeyError)
           | Some buf \<Rightarrow>
               (let p1 = p\<lparr>buffers := (buffers p)(socket \<mapsto> buf @ new_data)\<rparr> in
                case decode rt (buf @ new_data) of
                  Inl e \<Rightarrow> (p1, if e = JSONDecodeError then Incomplete else Failed e)
                | Inr data \<Rightarrow>
                    (let p2 = p1\<lparr>buffers := (buffers p1)(socket \<mapsto> [])\<rparr> in
                     case dispatch rt data of
                       Inl e \<Rightarrow> (p2, Dispatched data (Some e))
                     | Inr (frame_type, card_pix) \<Rightarrow>
                         (p2\<lparr>written := (written p2)(socket := written p2 socket @ ''ACK''),
                             disconnecting := insert socket (disconnecting p2),
                             scheduled := scheduled p2 @ [(frame_type, card_pix)]\<rparr>,
                          Dispatched data None)))))"

text \<open>The event loop runs the oldest scheduled call: \<open>set_overlay_custom(frame, card_pixmap)\<close>.\<close>

definition run_scheduled :: "'pm process \<Rightarrow> 'pm process \<times> py_error option" where
  "run_scheduled p =
     (case scheduled p of
        [] \<Rightarrow> (p, None)
      | (frame, card_pixmap) # rest \<Rightarrow>
          (case set_overlay_custom (window p) frame card_pixmap of
             (w, err) \<Rightarrow> (p\<lparr>scheduled := rest, window := w\<rparr>, err)))"

text \<open>A sequence of reads on one connection, with the event of each read.\<close>

fun feed :: "'pm runtime \<Rightarrow> 'pm process \<Rightarrow> nat \<Rightarrow> bytes list \<Rightarrow> 'pm process \<times> event list" where
  "feed rt p socket [] = (p, [])"
| "feed rt p socket (chunk # chunks) =
     (case read_client rt p (Some socket) chunk of
        (p1, ev) \<Rightarrow> (case feed rt p1 socket chunks of (p2, evs) \<Rightarrow> (p2, ev # evs)))"

definition is_dispatch :: "event \<Rightarrow> bool" where
  "is_dispatch ev = (case ev of Dispatched data err \<Rightarrow> True | _ \<Rightarrow> False)"

text \<open>
  A decoder for concrete runs. On the texts it accepts (the empty object, the empty array
  and an unsigned decimal integer without leading zero, each with surrounding white space)
  and on the empty text, which is rejected, it agrees with \<open>decode\<close>, \<open>strip\<close> and
  \<open>json.loads\<close>; the concrete runs below use no other text.
\<close>

definition is_digit :: "char \<Rightarrow> bool" where
  "is_digit c \<longleftrightarrow> (48::nat) \<le> of_char c \<and> of_char c \<le> (57::nat)"

definition decimal_value :: "string \<Rightarrow> int" where
  "decimal_value s = foldl (\<lambda>n c. 10 * n + (int (of_char c) - 48)) 0 s"

definition literal_decode :: "bytes \<Rightarrow> py_error + json" where
  "literal_decode bs =
     (let s = py_strip [CHR '' '', CHR 0x09, CHR 0x0A, CHR 0x0B, CHR 0x0C, CHR 0x0D,
                        CHR 0x1C, CHR 0x1D, CHR 0x1E, CHR 0x1F] bs
      in if s = ''{}'' then Inr (JObj [])
         else if s = ''[]'' then Inr (JArr [])
         else if s \<noteq> [] \<and> list_all is_digit s \<and> (hd s \<noteq> CHR ''0'' \<or> length s = 1)
              then Inr (JInt (decimal_value s))
         else Inl JSONDecodeError)"

section \<open>Properties of the sprite\<close>

lemma update_frame_in_range:
  assumes "position_ok s"
  shows "update_frame s =
           Inr (s\<lparr>pixmap := Some (frames s ! nat (current_frame s)),
                  current_frame := (current_frame s + 1) mod int (length (frames s))\<rparr>)"
proof -
  from assms have ne: "frames s \<noteq> []"
    by (auto simp: position_ok_def)
  from assms have "py_index (frames s) (current_frame s) = Inr (frames s ! nat (current_frame s))"
    by (simp add: py_index_def position_ok_def)
  with ne show ?thesis
    by (simp add: update_frame_def)
qed

lemma update_frame_keeps_position_ok:
  assumes "position_ok s" and "update_frame s = Inr s'"
  shows "position_ok s'"
proof -
  from assms(1) have "0 < int (length (frames s))"
    by (auto simp: position_ok_def)
  then have "0 \<le> (current_frame s + 1) mod int (length (frames s))"
    and "(current_frame s + 1) mod int (length (frames s)) < int (length (frames s))"
    by simp_all
  with assms show ?thesis
    by (auto simp: update_frame_in_range position_ok_def)
qed

text \<open>
  Claim C8, as stated: after a tick on a sprite with frames, the frame shown is the frame
  at the new position. On a sprite with the two frames 10 and 20 at position 0 the tick
  shows frame 10 and moves the position to 1, where frame 20 is.
\<close>

theorem C8_shown_frame_counterexample:
  "update_frame \<lparr>frames = [10, 20 :: nat], current_frame = 0, pixmap = None\<rparr>
     = Inr \<lparr>frames = [10, 20], current_frame = 1, pixmap = Some 10\<rparr>
   \<and> py_index [10, 20 :: nat] 1 = Inr 20"
  by (simp add: update_frame_def py_index_def)

text \<open>
  Claim C8, amended: on a sprite with a non-empty frame sequence and a valid position, a
  tick shows the frame at the position held before the tick, then advances the position
  by 1 modulo the frame count; it raises nothing and the new position is valid again.
\<close>

theorem C8_tick_shows_then_advances:
  assumes "frames s \<noteq> []" and "position_ok s"
  shows "\<exists>s'. next_frame s = Inr s'
           \<and> pixmap s' = Some (frames s ! nat (current_frame s))
           \<and> current_frame s' = (current_frame s + 1) mod int (length (frames s))
           \<and> frames s' = frames s
           \<and> position_ok s'"
proof -
  let ?s' = "s\<lparr>pixmap := Some (frames s ! nat (current_frame s)),
               current_frame := (current_frame s + 1) mod int (length (frames s))\<rparr>"
  have step: "update_frame s = Inr ?s'"
    using assms(2) by (rule update_frame_in_range)
  then have "position_ok ?s'"
    using assms(2) update_frame_keeps_position_ok by blast
  with step show ?thesis
    by (simp add: next_frame_def)
qed

theorem C8_tick_shows_then_advances_witness:
  "\<exists>s'. next_frame \<lparr>frames = [10, 20, 30 :: nat], current_frame = 2, pixmap = Some 20\<rparr> = Inr s'
         \<and> pixmap s' = Some 30 \<and> current_frame s' = 0"
  using C8_tick_shows_then_advances
          [of "\<lparr>frames = [10, 20, 30 :: nat], current_frame = 2, pixmap = Some 20\<rparr>"]
  by (auto simp: position_ok_def)

text \<open>
  Claim C10: a tick on a sprite without frames is a no-op. It returns normally (no
  IndexError, no division by zero), and the position and the shown pixmap are as before.
\<close>

theorem C10_tick_without_frames:
  assumes "frames s = []"
  shows "next_frame s = Inr s"
  using assms by (simp add: next_frame_def update_frame_def)

theorem C10_tick_without_frames_witness:
  "next_frame \<lparr>frames = ([] :: nat list), current_frame = 0, pixmap = None\<rparr>
     = Inr \<lparr>frames = [], current_frame = 0, pixmap = None\<rparr>"
  using C10_tick_without_frames [of "\<lparr>frames = ([] :: nat list), current_frame = 0, pixmap = None\<rparr>"]
  by simp

section \<open>Properties of the level and rank stars\<close>

lemma level_of_ok: "py_int str_int v = Inr n \<Longrightarrow> level_of str_int v = Inr n"
  by (simp add: level_of_def)

lemma level_of_caught:
  "py_int str_int v = Inl ValueError \<or> py_int str_int v = Inl TypeError \<Longrightarrow> level_of str_int v = Inr 0"
  by (auto simp: level_of_def)

lemma clamp_count: "0 \<le> hi \<Longrightarrow> int (nat (min n hi)) = clamp n 0 hi"
  by (auto simp: clamp_def)

lemma clamp_nonpos: "0 \<le> hi \<Longrightarrow> min n hi \<le> 0 \<Longrightarrow> clamp n 0 hi = 0"
  by (auto simp: clamp_def)

lemma level_stars_count:
  assumes "\<not> isNull star" and "0 \<le> max_stars" and "level_of str_int v = Inr n"
  shows "\<exists>ps. draw_level_stars str_int star rect v max_stars = Inr ps
              \<and> int (length ps) = clamp n 0 max_stars"
proof (cases "min n max_stars \<le> 0")
  case True
  with assms show ?thesis
    by (simp add: draw_level_stars_def clamp_nonpos)
next
  case False
  with assms show ?thesis
    by (auto simp: draw_level_stars_def Let_def clamp_def)
qed

lemma rank_stars_count:
  assumes "\<not> isNull star" and "0 \<le> max_stars" and "level_of str_int v = Inr n"
  shows "\<exists>ps. draw_rank_stars str_int star rect v max_stars = Inr ps
              \<and> int (length ps) = clamp n 0 max_stars"
proof (cases "min n max_stars \<le> 0")
  case True
  with assms show ?thesis
    by (simp add: draw_rank_stars_def clamp_nonpos)
next
  case False
  with assms show ?thesis
    by (auto simp: draw_rank_stars_def Let_def clamp_def)
qed

text \<open>
  Claim C5 at the failing input. \<open>json.loads\<close> turns a level written \<open>1e999\<close> or
  \<open>Infinity\<close> into the float infinity. \<open>int\<close> rejects it with \<open>OverflowError\<close>, which
  \<open>except (ValueError, TypeError)\<close> does not catch: both functions raise, whatever the
  star pixmap, the rectangle and the bound, where the claim promises no stars and no
  exception.
\<close>

theorem C5_infinite_level_raises:
  "draw_level_stars str_int star rect (JFloat PosInf) max_stars = Inl OverflowError
   \<and> draw_rank_stars str_int star rect (JFloat PosInf) max_stars = Inl OverflowError
   \<and> draw_level_stars str_int star rect (JFloat NegInf) max_stars = Inl OverflowError
   \<and> draw_rank_stars str_int star rect (JFloat NegInf) max_stars = Inl OverflowError"
  by (simp add: draw_level_stars_def draw_rank_stars_def level_of_def)

text \<open>
  On every other value the functions do what the claim says. With the star pixmap loaded
  and a bound \<open>max_stars\<close> that is not negative (12 for level stars, 13 for rank stars), a
  value that \<open>int\<close> converts to \<open>n\<close> draws exactly \<open>clamp(n, 0, max_stars)\<close> stars, and
  a value on which \<open>int\<close> raises \<open>ValueError\<close> or \<open>TypeError\<close> (a non-numeric string,
  \<open>None\<close>, a list, a dictionary, a NaN) draws none and raises nothing.
\<close>

lemma star_count_is_clamp:
  assumes "\<not> isNull star" and "0 \<le> max_stars"
  shows "(py_int str_int v = Inr n \<longrightarrow>
            (\<exists>ps. draw_level_stars str_int star rect v max_stars = Inr ps
                  \<and> int (length ps) = clamp n 0 max_stars)
          \<and> (\<exists>ps. draw_rank_stars str_int star rect v max_stars = Inr ps
                  \<and> int (length ps) = clamp n 0 max_stars))
       \<and> (py_int str_int v = Inl ValueError \<or> py_int str_int v = Inl TypeError \<longrightarrow>
            draw_level_stars str_int star rect v max_stars = Inr []
          \<and> draw_rank_stars str_int star rect v max_stars = Inr [])"
proof (intro conjI impI)
  assume "py_int str_int v = Inr n"
  then have "level_of str_int v = Inr n" by (rule level_of_ok)
  with assms show "\<exists>ps. draw_level_stars str_int star rect v max_stars = Inr ps
                  \<and> int (length ps) = clamp n 0 max_stars"
    and "\<exists>ps. draw_rank_stars str_int star rect v max_stars = Inr ps
                  \<and> int (length ps) = clamp n 0 max_stars"
    by (simp_all add: level_stars_count rank_stars_count)
next
  assume "py_int str_int v = Inl ValueError \<or> py_int str_int v = Inl TypeError"
  then have "level_of str_int v = Inr 0" by (rule level_of_caught)
  then show "draw_level_stars str_int star rect v max_stars = Inr []"
    and "draw_rank_stars str_int star rect v max_stars = Inr []"
    using assms by (simp_all add: draw_level_stars_def draw_rank_stars_def)
qed

lemma star_count_is_clamp_examples:
  "(\<exists>ps. draw_level_stars (\<lambda>s. None) \<lparr>isNull = False, scaled_width = (\<lambda>h. h)\<rparr>
       \<lparr>rect_x = 82, rect_y = 98, rect_width = 415, rect_height = 33\<rparr> (JInt 15) 12 = Inr ps
       \<and> int (length ps) = 12)
   \<and> (\<exists>ps. draw_rank_stars (\<lambda>s. None) \<lparr>isNull = False, scaled_width = (\<lambda>h. h)\<rparr>
       \<lparr>rect_x = 82, rect_y = 98, rect_width = 415, rect_height = 33\<rparr> (JInt 15) 13 = Inr ps
       \<and> int (length ps) = 13)
   \<and> draw_level_stars (\<lambda>s. None) \<lparr>isNull = False, scaled_width = (\<lambda>h. h)\<rparr>
       \<lparr>rect_x = 82, rect_y = 98, rect_width = 415, rect_height = 33\<rparr> (JStr ''many'') 12 = Inr []
   \<and> draw_rank_stars (\<lambda>s. None) \<lparr>isNull = False, scaled_width = (\<lambda>h. h)\<rparr>
       \<lparr>rect_x = 82, rect_y = 98, rect_width = 415, rect_height = 33\<rparr> JNull 13 = Inr []"
  using star_count_is_clamp [of "\<lparr>isNull = False, scaled_width = (\<lambda>h. h)\<rparr>" 12 "\<lambda>s. None" "JInt 15" 15
      "\<lparr>rect_x = 82, rect_y = 98, rect_width = 415, rect_height = 33\<rparr>"]
    star_count_is_clamp [of "\<lparr>isNull = False, scaled_width = (\<lambda>h. h)\<rparr>" 13 "\<lambda>s. None" "JInt 15" 15
      "\<lparr>rect_x = 82, rect_y = 98, rect_width = 415, rect_height = 33\<rparr>"]
    star_count_is_clamp [of "\<lparr>isNull = False, scaled_width = (\<lambda>h. h)\<rparr>" 12 "\<lambda>s. None" "JStr ''many''" 0
      "\<lparr>rect_x = 82, rect_y = 98, rect_width = 415, rect_height = 33\<rparr>"]
    star_count_is_clamp [of "\<lparr>isNull = False, scaled_width = (\<lambda>h. h)\<rparr>" 13 "\<lambda>s. None" JNull 0
      "\<lparr>rect_x = 82, rect_y = 98, rect_width = 415, rect_height = 33\<rparr>"]
  by (simp add: clamp_def)

text \<open>With a null star pixmap nothing is drawn, whatever value the conversion gives.\<close>

lemma null_star_draws_nothing:
  assumes "isNull star" and "level_of str_int v = Inr n"
  shows "draw_level_stars str_int star rect v max_stars = Inr []"
    and "draw_rank_stars str_int star rect v max_stars = Inr []"
  using assms by (simp_all add: draw_level_stars_def draw_rank_stars_def)

section \<open>Properties of the description fit\<close>

lemma spacing_loop_from_zero:
  "spacing_loop mk fits (- 1) 0 =
     (if fits (mk 0) then Some (mk 0)
      else if fits (mk (- (1 / 2))) then Some (mk (- (1 / 2)))
      else if fits (mk (- 1)) then Some (mk (- 1))
      else None)"
proof -
  have last: "spacing_loop mk fits (- 1) (- (3 / 2)) = None"
    by (subst spacing_loop.simps) simp
  have third: "spacing_loop mk fits (- 1) (- 1) =
        (if fits (mk (- 1)) then Some (mk (- 1)) else None)"
    by (subst spacing_loop.simps) (simp add: last)
  have half: "(- (1 / 2) :: rat) - 1 / 2 = - 1"
    by simp
  have second: "spacing_loop mk fits (- 1) (- (1 / 2)) =
        (if fits (mk (- (1 / 2))) then Some (mk (- (1 / 2)))
         else if fits (mk (- 1)) then Some (mk (- 1)) else None)"
    by (subst spacing_loop.simps) (simp add: third half)
  show ?thesis
    by (subst spacing_loop.simps) (simp add: second)
qed

lemma size_loop_is_find:
  "size_loop (\<lambda>fs. spacing_loop (mk fs) fits (- 1) 0) sizes =
     map_option (\<lambda>(fs, ls). mk fs ls)
       (find (\<lambda>(fs, ls). fits (mk fs ls))
          (concat (map (\<lambda>fs. map (\<lambda>ls. (fs, ls)) [0, - (1 / 2), - 1]) sizes)))"
proof (induction sizes)
  case Nil
  show ?case by simp
next
  case (Cons fs sizes)
  then show ?case
    by (simp add: spacing_loop_from_zero)
qed

lemma range_down_descending:
  "range_down max_font_size (min_font_size - 1) = descending_sizes max_font_size min_font_size"
proof (rule nth_equalityI)
  show len: "length (range_down max_font_size (min_font_size - 1))
        = length (descending_sizes max_font_size min_font_size)"
    by (simp add: range_down_def descending_sizes_def)
  fix k
  assume "k < length (range_down max_font_size (min_font_size - 1))"
  then have k: "int k < max_font_size - min_font_size + 1"
    by (simp add: range_down_def)
  then have "rev [min_font_size..max_font_size] ! k
      = [min_font_size..max_font_size] ! (nat (max_font_size - min_font_size + 1) - Suc k)"
    by (simp add: rev_nth)
  also have "\<dots> = min_font_size + int (nat (max_font_size - min_font_size + 1) - Suc k)"
    using k by (intro nth_upto) linarith
  also have "\<dots> = max_font_size - int k"
    using k by linarith
  finally show "range_down max_font_size (min_font_size - 1) ! k
      = descending_sizes max_font_size min_font_size ! k"
    using k by (simp add: range_down_def descending_sizes_def)
qed

lemma chosen_is_first_candidate:
  "(case size_loop (\<lambda>fs. spacing_loop (mk fs) fits (- 1) 0) sizes of
      Some font \<Rightarrow> (font, t) | None \<Rightarrow> (d, t))
   = (case find (\<lambda>c. fits (case c of (fs, ls) \<Rightarrow> mk fs ls))
             (concat (map (\<lambda>fs. map (\<lambda>ls. (fs, ls)) [0, - (1 / 2), - 1]) sizes)) of
        Some c \<Rightarrow> (case c of (fs, ls) \<Rightarrow> mk fs ls, t) | None \<Rightarrow> (d, t))"
proof -
  have same: "(\<lambda>c. fits (case c of (fs, ls) \<Rightarrow> mk fs ls)) = (\<lambda>(fs, ls). fits (mk fs ls))"
    by (simp add: fun_eq_iff split: prod.splits)
  show ?thesis
    unfolding size_loop_is_find same
    by (simp split: option.splits prod.splits)
qed

text \<open>
  Claim C6: with the lower spacing bound -1.0 that every caller uses, the font set on the
  painter is the one of the first candidate, in the order sizes descending and spacings
  0, -0.5, -1.0 within a size, whose word-wrapped bounding height is at most the height
  of the rectangle; when no candidate fits it is the fallback font of the minimum size
  with spacing -1.0. The function always returns.
\<close>

theorem C6_font_fit_search:
  "draw_fitted_description fonts bounding_height frame_type rect text0
       max_font_size min_font_size (- 1)
   = spec_font_fit fonts bounding_height frame_type rect text0 max_font_size min_font_size"
proof -
  define lore where "lore = (map ascii_lower frame_type = ''normal'')"
  define shown where "shown = (if lore then py_strip [CHR 0x27, CHR 0x22] text0 else text0)"
  define fam where "fam = (if lore then lore_font fonts else main_font fonts)"
  define mk where "mk = (\<lambda>font_size ls.
      \<lparr>family = fam, pointSize = font_size, weight = Light, letterSpacing = ls, fullHinting = True\<rparr>)"
  define fits where "fits = (\<lambda>font. bounding_height font rect shown \<le> rect_height rect)"
  define fallback where "fallback =
      \<lparr>family = main_font fonts, pointSize = min_font_size, weight = Normal,
       letterSpacing = - 1, fullHinting = False\<rparr>"
  have code: "draw_fitted_description fonts bounding_height frame_type rect text0
       max_font_size min_font_size (- 1)
     = (case size_loop (\<lambda>fs. spacing_loop (mk fs) fits (- 1) 0)
               (range_down max_font_size (min_font_size - 1)) of
          Some font \<Rightarrow> (font, shown) | None \<Rightarrow> (fallback, shown))"
    by (simp add: draw_fitted_description_def Let_def lore_def shown_def fam_def mk_def fits_def
          fallback_def split: option.splits)
  have spec: "spec_font_fit fonts bounding_height frame_type rect text0 max_font_size min_font_size
     = (case find (\<lambda>c. fits (case c of (fs, ls) \<Rightarrow> mk fs ls))
               (fit_candidates max_font_size min_font_size) of
          Some c \<Rightarrow> (case c of (fs, ls) \<Rightarrow> mk fs ls, shown) | None \<Rightarrow> (fallback, shown))"
    by (simp add: spec_font_fit_def Let_def lore_def shown_def fam_def mk_def fits_def
          fallback_def split: option.splits)
  show ?thesis
    unfolding code spec fit_candidates_def range_down_descending
    by (rule chosen_is_first_candidate)
qed

theorem C6_font_fit_search_witness:
  "draw_fitted_description \<lparr>lore_font = ''Stone Serif ITC Medium'', main_font = ''ITC Stone Serif''\<rparr>
       (\<lambda>font rect text. pointSize font * 9 + (if letterSpacing font = 0 then 3 else 0))
       ''effect'' \<lparr>rect_x = 42, rect_y = 628, rect_width = 465, rect_height = 99\<rparr> ''Draw 2 cards.''
       12 9 (- 1)
     = (\<lparr>family = ''ITC Stone Serif'', pointSize = 11, weight = Light,
         letterSpacing = - (1 / 2), fullHinting = True\<rparr>, ''Draw 2 cards.'')
   \<and> draw_fitted_description \<lparr>lore_font = ''Stone Serif ITC Medium'', main_font = ''ITC Stone Serif''\<rparr>
       (\<lambda>font rect text. pointSize font * 11 + (if letterSpacing font = - 1 then 0 else 1))
       ''effect'' \<lparr>rect_x = 42, rect_y = 628, rect_width = 465, rect_height = 99\<rparr> ''Draw 2 cards.''
       12 9 (- 1)
     = (\<lparr>family = ''ITC Stone Serif'', pointSize = 9, weight = Light,
         letterSpacing = - 1, fullHinting = True\<rparr>, ''Draw 2 cards.'')
   \<and> draw_fitted_description \<lparr>lore_font = ''Stone Serif ITC Medium'', main_font = ''ITC Stone Serif''\<rparr>
       (\<lambda>font rect text. 200)
       ''Normal'' \<lparr>rect_x = 42, rect_y = 628, rect_width = 465, rect_height = 99\<rparr> ''\"A dragon.\"''
       12 9 (- 1)
     = (\<lparr>family = ''ITC Stone Serif'', pointSize = 9, weight = Normal,
         letterSpacing = - 1, fullHinting = False\<rparr>, ''A dragon.'')"
  unfolding C6_font_fit_search
  by code_simp

section \<open>Properties of the gradient\<close>






























section \<open>Properties of the colour adjuster\<close>







text \<open>The hue adjustment leaves every pixel opaque.\<close>

lemma adjust_hue_pixel_alpha: "alpha (adjust_hue_pixel lib hue p) = 255"
  by (simp add: adjust_hue_pixel_def split: prod.splits)

lemma region_pixel_restored:
  assumes "box_error lib (x, y, x + w, y + h) = None"
  shows "\<exists>frame'. adjust_frame lib frame hue saturation brightness (Some (x, y, w, h)) = Inr frame'
           \<and> (\<forall>i j. x \<le> i \<and> i < x + w \<and> y \<le> j \<and> j < y + h \<and> inside frame i j
                    \<and> alpha (im_px frame i j) < 255
                  \<longrightarrow> im_px frame' i j = im_px frame i j)"
  using assms
  by (simp add: adjust_frame_def Let_def paste_def restore_where_def crop_def)

lemma whole_frame_pixels:
  "\<exists>frame'. adjust_frame lib frame hue saturation brightness None = Inr frame'
           \<and> (\<forall>i j. im_px frame' i j
                   = (if alpha (im_px frame i j) = 0 then im_px frame i j
                      else im_px (adjust_colors lib frame hue saturation brightness) i j))"
  by (simp add: adjust_frame_def Let_def restore_where_def)

lemma whole_frame_translucent_changed:
  assumes "hue \<noteq> 0"
  shows "\<exists>frame'. adjust_frame lib frame hue 1 0 None = Inr frame'
           \<and> (\<forall>i j. alpha (im_px frame i j) \<noteq> 0 \<and> alpha (im_px frame i j) \<noteq> 255
                  \<longrightarrow> alpha (im_px frame' i j) = 255 \<and> im_px frame' i j \<noteq> im_px frame i j)"
proof -
  have "im_px (adjust_colors lib frame hue 1 0) i j = adjust_hue_pixel lib hue (im_px frame i j)" for i j
    using assms by (simp add: adjust_colors_def adjust_hue_def map_pixels_def)
  then have a: "alpha (im_px (adjust_colors lib frame hue 1 0) i j) = 255" for i j
    by (simp add: adjust_hue_pixel_alpha)
  have b: "im_px (adjust_colors lib frame hue 1 0) i j \<noteq> im_px frame i j"
    if "alpha (im_px frame i j) \<noteq> 255" for i j
    using that a [of i j] by metis
  show ?thesis
    using a b by (simp add: adjust_frame_def Let_def restore_where_def)
qed

text \<open>
  Claim C1. With a region that the library accepts, \<open>adjust_frame\<close> returns, and every
  pixel of the frame inside the region whose original alpha is below 255 has its original
  RGBA value afterwards. Without a region it returns a frame in which a pixel has its
  original value when its original alpha is 0 and the adjusted value otherwise; these
  other pixels are not restored: under a hue shift alone every pixel with an alpha
  strictly between 0 and 255 comes out with alpha 255, different from the original.
\<close>

theorem C1_alpha_preservation:
  "(box_error lib (x, y, x + w, y + h) = None \<longrightarrow>
      (\<exists>frame'. adjust_frame lib frame hue saturation brightness (Some (x, y, w, h)) = Inr frame'
           \<and> (\<forall>i j. x \<le> i \<and> i < x + w \<and> y \<le> j \<and> j < y + h \<and> inside frame i j
                    \<and> alpha (im_px frame i j) < 255
                  \<longrightarrow> im_px frame' i j = im_px frame i j)))
   \<and> (\<exists>frame'. adjust_frame lib frame hue saturation brightness None = Inr frame'
           \<and> (\<forall>i j. im_px frame' i j
                   = (if alpha (im_px frame i j) = 0 then im_px frame i j
                      else im_px (adjust_colors lib frame hue saturation brightness) i j)))
   \<and> (hue \<noteq> 0 \<longrightarrow>
      (\<exists>frame'. adjust_frame lib frame hue 1 0 None = Inr frame'
           \<and> (\<forall>i j. alpha (im_px frame i j) \<noteq> 0 \<and> alpha (im_px frame i j) \<noteq> 255
                  \<longrightarrow> alpha (im_px frame' i j) = 255 \<and> im_px frame' i j \<noteq> im_px frame i j)))"
  using region_pixel_restored [of lib x y w h frame hue saturation brightness]
    whole_frame_pixels [of lib frame hue saturation brightness]
    whole_frame_translucent_changed [of hue lib frame]
  by blast

theorem C1_alpha_preservation_witness:
  "(\<exists>frame'. adjust_frame
        \<lparr>rgb2hsv = (\<lambda>c. c), hsv2rgb = (\<lambda>c. c), enhance_color = (\<lambda>f p. p),
         enhance_brightness = (\<lambda>f p. p), box_error = (\<lambda>b. None)\<rparr>
        \<lparr>im_width = 2, im_height = 2,
         im_px = (\<lambda>x y. if x = 0 then RGBA 10 20 30 128 else RGBA 1 2 3 255)\<rparr>
        90 1 0 (Some (0, 0, 2, 2)) = Inr frame'
      \<and> im_px frame' 0 1 = RGBA 10 20 30 128)
   \<and> (\<exists>frame'. adjust_frame
        \<lparr>rgb2hsv = (\<lambda>c. c), hsv2rgb = (\<lambda>c. c), enhance_color = (\<lambda>f p. p),
         enhance_brightness = (\<lambda>f p. p), box_error = (\<lambda>b. None)\<rparr>
        \<lparr>im_width = 2, im_height = 2,
         im_px = (\<lambda>x y. if x = 0 then RGBA 10 20 30 128 else RGBA 1 2 3 255)\<rparr>
        90 1 0 None = Inr frame'
      \<and> alpha (im_px frame' 0 1) = 255)"
proof -
  let ?L = "\<lparr>rgb2hsv = (\<lambda>c. c), hsv2rgb = (\<lambda>c. c), enhance_color = (\<lambda>f p. p),
         enhance_brightness = (\<lambda>f p. p), box_error = (\<lambda>b. None)\<rparr>"
  let ?F = "\<lparr>im_width = 2, im_height = 2,
         im_px = (\<lambda>x y. if x = 0 then RGBA 10 20 30 128 else RGBA 1 2 3 255)\<rparr>"
  have in_frame: "inside ?F 0 1"
    by (simp add: inside_def)
  have px: "im_px ?F 0 1 = RGBA 10 20 30 128"
    by simp
  have accepted: "box_error ?L (0, 0, 0 + 2, 0 + 2) = None"
    by simp
  have shifted: "(90::rat) \<noteq> 0"
    by simp
  note all = C1_alpha_preservation [of ?L 0 0 2 2 ?F 90 1 0]
  from all accepted obtain f1 where
    f1: "adjust_frame ?L ?F 90 1 0 (Some (0, 0, 2, 2)) = Inr f1" and
    r1: "\<forall>i j. 0 \<le> i \<and> i < 0 + 2 \<and> 0 \<le> j \<and> j < 0 + 2 \<and> inside ?F i j
              \<and> alpha (im_px ?F i j) < 255 \<longrightarrow> im_px f1 i j = im_px ?F i j"
    by blast
  have "(0::int) \<le> 0 \<and> (0::int) < 0 + 2 \<and> (0::int) \<le> 1 \<and> (1::int) < 0 + 2 \<and> inside ?F 0 1
          \<and> alpha (im_px ?F 0 1) < 255"
    using in_frame by simp
  with r1 have "im_px f1 0 1 = im_px ?F 0 1"
    by blast
  with px have p1: "im_px f1 0 1 = RGBA 10 20 30 128"
    by simp
  from all shifted obtain f2 where
    f2: "adjust_frame ?L ?F 90 1 0 None = Inr f2" and
    r2: "\<forall>i j. alpha (im_px ?F i j) \<noteq> 0 \<and> alpha (im_px ?F i j) \<noteq> 255
              \<longrightarrow> alpha (im_px f2 i j) = 255 \<and> im_px f2 i j \<noteq> im_px ?F i j"
    by blast
  have "alpha (im_px ?F 0 1) \<noteq> 0 \<and> alpha (im_px ?F 0 1) \<noteq> 255"
    by simp
  with r2 have p2: "alpha (im_px f2 0 1) = 255"
    by blast
  from f1 p1 f2 p2 show ?thesis
    by blast
qed

section \<open>Properties of the ingestion server\<close>

text \<open>The dispatch logic on a message that is not a new card, and on a document that is not an object.\<close>

lemma dispatch_other_status:
  assumes "map_of kvs ''status'' \<noteq> Some (JStr ''NewCard'')"
  shows "dispatch rt (JObj kvs) = Inr (JStr ''Default'', default_pixmap rt)"
  using assms by (auto simp: dispatch_def py_get_def split: option.splits)

lemma dispatch_not_object:
  assumes "\<forall>kvs. data \<noteq> JObj kvs"
  shows "dispatch rt data = Inl AttributeError"
  using assms by (cases data) (simp_all add: dispatch_def py_get_def)

text \<open>
  The frame key \<open>Default\<close> names no label and is no pendulum variant, so the scheduled
  overlay update with that key goes through whenever the current border is a string, and
  leaves \<open>Default\<close> as the active border. A border that is not a string stops the update
  at its first call.
\<close>

lemma default_border_has_no_label: "fade_border (JStr ''Default'') m d = Inr []"
  by (simp add: fade_border_def get_border_widget_def startswith_def)

lemma default_border_not_pendulum: "\<not> is_pendulum (JStr ''Default'')"
  by (simp add: is_pendulum_def startswith_def)

lemma fade_border_string: "\<exists>es. fade_border (JStr b) m d = Inr es"
  by (simp add: fade_border_def get_border_widget_def)

lemma overlay_default_sets_border:
  assumes "active_border w = JStr b"
  shows "\<exists>w'. set_overlay_custom w (JStr ''Default'') pm = (w', None)
            \<and> active_border w' = JStr ''Default''"
proof -
  obtain es where "fade_border (JStr b) (FadeOut :: label \<Rightarrow> int \<Rightarrow> 'a effect) 250 = Inr es"
    using fade_border_string by blast
  then show ?thesis
    using assms
    by (simp add: set_overlay_custom_def Let_def default_border_has_no_label
          default_border_not_pendulum)
qed

lemma overlay_blocked_by_non_string:
  assumes "\<forall>b. active_border w \<noteq> JStr b"
  shows "set_overlay_custom w frame pm = (w, Some AttributeError)"
  using assms
  by (cases "active_border w")
     (simp_all add: set_overlay_custom_def Let_def fade_border_def get_border_widget_def)

lemma read_client_complete:
  assumes "buffers p socket = Some buf"
    and "decode rt (buf @ new_data) = Inr data"
    and "dispatch rt data = Inr (frame_type, card_pix)"
  shows "read_client rt p (Some socket) new_data =
           (p\<lparr>buffers := (buffers p)(socket \<mapsto> []),
              written := (written p)(socket := written p socket @ ''ACK''),
              disconnecting := insert socket (disconnecting p),
              scheduled := scheduled p @ [(frame_type, card_pix)]\<rparr>,
            Dispatched data None)"
  using assms by (simp add: read_client_def Let_def)

text \<open>
  Claim C2, amended: for a complete message that is a JSON object whose \<open>status\<close> is
  absent or not \<open>NewCard\<close>, \<open>read_client\<close> clears the accumulator, writes \<open>ACK\<close>, closes
  the connection and leaves the active border as it is, and it schedules one overlay
  update with the frame key \<open>Default\<close> and the default pixmap; that update, run on a
  window whose active border is a string, sets the active border to \<open>Default\<close>.
\<close>

theorem C2_other_status_acknowledged:
  assumes "buffers p socket = Some buf"
    and "decode rt (buf @ new_data) = Inr (JObj kvs)"
    and "map_of kvs ''status'' \<noteq> Some (JStr ''NewCard'')"
  shows "\<exists>p'. read_client rt p (Some socket) new_data = (p', Dispatched (JObj kvs) None)
           \<and> written p' socket = written p socket @ ''ACK''
           \<and> socket \<in> disconnecting p'
           \<and> buffers p' socket = Some []
           \<and> window p' = window p
           \<and> scheduled p' = scheduled p @ [(JStr ''Default'', default_pixmap rt)]
           \<and> (\<forall>w b. active_border w = JStr b \<longrightarrow>
                  (\<exists>w'. set_overlay_custom w (JStr ''Default'') (default_pixmap rt) = (w', None)
                        \<and> active_border w' = JStr ''Default''))"
proof -
  define p' where "p' = p\<lparr>buffers := (buffers p)(socket \<mapsto> []),
              written := (written p)(socket := written p socket @ ''ACK''),
              disconnecting := insert socket (disconnecting p),
              scheduled := scheduled p @ [(JStr ''Default'', default_pixmap rt)]\<rparr>"
  have d: "dispatch rt (JObj kvs) = Inr (JStr ''Default'', default_pixmap rt)"
    using assms(3) by (rule dispatch_other_status)
  have run: "read_client rt p (Some socket) new_data = (p', Dispatched (JObj kvs) None)"
    unfolding p'_def using assms(1,2) d by (rule read_client_complete)
  have fields: "written p' socket = written p socket @ ''ACK''" "socket \<in> disconnecting p'"
    "buffers p' socket = Some []" "window p' = window p"
    "scheduled p' = scheduled p @ [(JStr ''Default'', default_pixmap rt)]"
    by (simp_all add: p'_def)
  have later: "\<exists>w'. set_overlay_custom w (JStr ''Default'') (default_pixmap rt) = (w', None)
                        \<and> active_border w' = JStr ''Default''"
    if "active_border w = JStr b" for w :: "'a main_window" and b
    using that by (rule overlay_default_sets_border)
  show ?thesis
  proof (intro exI [of _ p'] conjI allI impI)
    show "read_client rt p (Some socket) new_data = (p', Dispatched (JObj kvs) None)"
      by (rule run)
  qed (use fields later in blast)+
qed

text \<open>Concrete runs with the literal decoder.\<close>

lemma decode_empty_object: "literal_decode ''{}'' = Inr (JObj [])"
  by (simp add: literal_decode_def py_strip_def)

lemma decode_empty_array: "literal_decode ''[]'' = Inr (JArr [])"
  by (simp add: literal_decode_def py_strip_def)

lemma token_border_has_no_label: "fade_border (JStr ''token'') m d = Inr []"
  by (simp add: fade_border_def get_border_widget_def startswith_def)

lemma token_border_not_pendulum: "\<not> is_pendulum (JStr ''token'')"
  by (simp add: is_pendulum_def startswith_def)

text \<open>
  Claim C2, as stated, has the active border unchanged and an acknowledgement for every
  valid document without a \<open>NewCard\<close> status. After the message \<open>{}\<close> and the overlay
  update it schedules, the active border \<open>token\<close> has become \<open>Default\<close>; and the valid
  document \<open>[]\<close> makes \<open>data.get\<close> raise \<open>AttributeError\<close> before anything is written.
\<close>

theorem C2_active_border_counterexample:
  "active_border (window (fst (run_scheduled (fst (read_client
       \<lparr>decode = literal_decode, loads = (\<lambda>s. Inl JSONDecodeError),
        render = (\<lambda>c i e. Inl ValueError), default_pixmap = (0::nat)\<rparr>
       \<lparr>buffers = [7 \<mapsto> []], written = (\<lambda>s. []), disconnecting = {}, scheduled = [],
        window = \<lparr>active_border = JStr ''token'', effects = []\<rparr>\<rparr>
       (Some 7) ''{}''))))) = JStr ''Default''
   \<and> snd (read_client
       \<lparr>decode = literal_decode, loads = (\<lambda>s. Inl JSONDecodeError),
        render = (\<lambda>c i e. Inl ValueError), default_pixmap = (0::nat)\<rparr>
       \<lparr>buffers = [7 \<mapsto> []], written = (\<lambda>s. []), disconnecting = {}, scheduled = [],
        window = \<lparr>active_border = JStr ''token'', effects = []\<rparr>\<rparr>
       (Some 7) ''[]'') = Dispatched (JArr []) (Some AttributeError)
   \<and> written (fst (read_client
       \<lparr>decode = literal_decode, loads = (\<lambda>s. Inl JSONDecodeError),
        render = (\<lambda>c i e. Inl ValueError), default_pixmap = (0::nat)\<rparr>
       \<lparr>buffers = [7 \<mapsto> []], written = (\<lambda>s. []), disconnecting = {}, scheduled = [],
        window = \<lparr>active_border = JStr ''token'', effects = []\<rparr>\<rparr>
       (Some 7) ''[]'')) 7 = []"
proof -
  let ?rt = "\<lparr>decode = literal_decode, loads = (\<lambda>s. Inl JSONDecodeError),
        render = (\<lambda>c i e. Inl ValueError), default_pixmap = (0::nat)\<rparr>"
  let ?p = "\<lparr>buffers = [7 \<mapsto> []], written = (\<lambda>s. []), disconnecting = {}, scheduled = [],
        window = \<lparr>active_border = JStr ''token'', effects = []\<rparr>\<rparr>"
  have obj: "dispatch ?rt (JObj []) = Inr (JStr ''Default'', 0)"
    using dispatch_other_status [of "[]" ?rt] by simp
  have b: "buffers ?p 7 = Some []"
    by simp
  have dcd: "decode ?rt ([] @ ''{}'') = Inr (JObj [])"
    by (simp add: decode_empty_object)
  note r = read_client_complete [OF b dcd obj]
  have first: "active_border (window (fst (run_scheduled (fst (read_client ?rt ?p (Some 7) ''{}'')))))
      = JStr ''Default''"
    unfolding r
    by (simp add: run_scheduled_def set_overlay_custom_def Let_def token_border_has_no_label
          token_border_not_pendulum default_border_has_no_label default_border_not_pendulum)
  have arr: "dispatch ?rt (JArr []) = Inl AttributeError"
    by (rule dispatch_not_object) simp
  have raised: "snd (read_client ?rt ?p (Some 7) ''[]'') = Dispatched (JArr []) (Some AttributeError)"
    by (simp add: read_client_def Let_def decode_empty_array arr)
  have silent: "written (fst (read_client ?rt ?p (Some 7) ''[]'')) 7 = []"
    by (simp add: read_client_def Let_def decode_empty_array arr)
  from first raised silent show ?thesis
    by (intro conjI)
qed

theorem C2_other_status_acknowledged_witness:
  "\<exists>p'. read_client
       \<lparr>decode = literal_decode, loads = (\<lambda>s. Inl JSONDecodeError),
        render = (\<lambda>c i e. Inl ValueError), default_pixmap = (0::nat)\<rparr>
       \<lparr>buffers = [7 \<mapsto> []], written = (\<lambda>s. []), disconnecting = {}, scheduled = [],
        window = \<lparr>active_border = JStr ''token'', effects = []\<rparr>\<rparr>
       (Some 7) ''{}'' = (p', Dispatched (JObj []) None)
     \<and> written p' 7 = ''ACK'' \<and> 7 \<in> disconnecting p'
     \<and> active_border (window p') = JStr ''token''
     \<and> scheduled p' = [(JStr ''Default'', 0)]"
proof -
  let ?rt = "\<lparr>decode = literal_decode, loads = (\<lambda>s. Inl JSONDecodeError),
        render = (\<lambda>c i e. Inl ValueError), default_pixmap = (0::nat)\<rparr>"
  let ?p = "\<lparr>buffers = [7 \<mapsto> []], written = (\<lambda>s. []), disconnecting = {}, scheduled = [],
        window = \<lparr>active_border = JStr ''token'', effects = []\<rparr>\<rparr>"
  have b: "buffers ?p 7 = Some []"
    by simp
  have dcd: "decode ?rt ([] @ ''{}'') = Inr (JObj [])"
    by (simp add: decode_empty_object)
  have status: "map_of [] ''status'' \<noteq> Some (JStr ''NewCard'')"
    by simp
  from C2_other_status_acknowledged [OF b dcd status] show ?thesis
    apply (elim exE conjE)
    subgoal for p'
      by (intro exI [of _ p'] conjI) simp_all
    done
qed

text \<open>Reads that do not complete a document, and the read that does.\<close>

lemma read_client_incomplete:
  assumes "buffers p socket = Some buf" and "decode rt (buf @ new_data) = Inl e"
  shows "read_client rt p (Some socket) new_data =
           (p\<lparr>buffers := (buffers p)(socket \<mapsto> buf @ new_data)\<rparr>,
            if e = JSONDecodeError then Incomplete else Failed e)"
  using assms by (simp add: read_client_def Let_def)

lemma read_client_decoded:
  assumes "buffers p socket = Some buf" and "decode rt (buf @ new_data) = Inr doc"
  shows "\<exists>p' err. read_client rt p (Some socket) new_data = (p', Dispatched doc err)
           \<and> buffers p' socket = Some []"
proof (cases "dispatch rt doc")
  case (Inl e)
  with assms show ?thesis
    by (simp add: read_client_def Let_def)
next
  case (Inr r)
  obtain frame_type card_pix where "r = (frame_type, card_pix)"
    by (cases r)
  with Inr assms show ?thesis
    by (simp add: read_client_def Let_def)
qed

lemma not_dispatch_incomplete: "\<not> is_dispatch (if e = JSONDecodeError then Incomplete else Failed e)"
  by (simp add: is_dispatch_def)

lemma feed_reassembles:
  assumes "buffers p socket = Some buf" and "chunks \<noteq> []"
    and "decode rt (buf @ concat chunks) = Inr doc"
    and "\<forall>k. 0 < k \<and> k < length chunks \<longrightarrow> (\<exists>e. decode rt (buf @ concat (take k chunks)) = Inl e)"
  shows "\<exists>p' evs err. feed rt p socket chunks = (p', evs) \<and> length evs = length chunks
           \<and> filter is_dispatch evs = [Dispatched doc err] \<and> last evs = Dispatched doc err
           \<and> buffers p' socket = Some []"
  using assms
proof (induction chunks arbitrary: p buf)
  case Nil
  then show ?case by simp
next
  case (Cons chunk rest)
  show ?case
  proof (cases "rest = []")
    case True
    with Cons.prems have "decode rt (buf @ chunk) = Inr doc"
      by simp
    with Cons.prems(1) obtain p' err where
      "read_client rt p (Some socket) chunk = (p', Dispatched doc err)" "buffers p' socket = Some []"
      using read_client_decoded by blast
    with True show ?thesis
      by (simp add: is_dispatch_def)
  next
    case False
    then have "0 < (1::nat) \<and> 1 < length (chunk # rest)"
      by (cases rest) simp_all
    with Cons.prems(4) obtain e where "decode rt (buf @ concat (take 1 (chunk # rest))) = Inl e"
      by blast
    then have e: "decode rt (buf @ chunk) = Inl e"
      by simp
    define p1 where "p1 = p\<lparr>buffers := (buffers p)(socket \<mapsto> buf @ chunk)\<rparr>"
    define ev where "ev = (if e = JSONDecodeError then Incomplete else Failed e)"
    have step: "read_client rt p (Some socket) chunk = (p1, ev)"
      unfolding p1_def ev_def using Cons.prems(1) e by (rule read_client_incomplete)
    have b1: "buffers p1 socket = Some (buf @ chunk)"
      by (simp add: p1_def)
    have d1: "decode rt ((buf @ chunk) @ concat rest) = Inr doc"
      using Cons.prems(3) by simp
    have pre: "\<forall>k. 0 < k \<and> k < length rest
        \<longrightarrow> (\<exists>e. decode rt ((buf @ chunk) @ concat (take k rest)) = Inl e)"
    proof (intro allI impI)
      fix k
      assume k: "0 < k \<and> k < length rest"
      then have "0 < Suc k \<and> Suc k < length (chunk # rest)"
        by simp
      with Cons.prems(4) obtain e' where
        "decode rt (buf @ concat (take (Suc k) (chunk # rest))) = Inl e'"
        by blast
      then show "\<exists>e. decode rt ((buf @ chunk) @ concat (take k rest)) = Inl e"
        by simp
    qed
    from Cons.IH [OF b1 False d1 pre] obtain p' evs err where
      rest: "feed rt p1 socket rest = (p', evs)" "length evs = length rest"
        "filter is_dispatch evs = [Dispatched doc err]" "last evs = Dispatched doc err"
        "buffers p' socket = Some []"
      by blast
    from rest(2) False have "evs \<noteq> []"
      by auto
    with rest step have "feed rt p socket (chunk # rest) = (p', ev # evs)
        \<and> length (ev # evs) = length (chunk # rest)
        \<and> filter is_dispatch (ev # evs) = [Dispatched doc err]
        \<and> last (ev # evs) = Dispatched doc err \<and> buffers p' socket = Some []"
      by (simp add: ev_def not_dispatch_incomplete)
    then show ?thesis
      by blast
  qed
qed

text \<open>
  Claim C9, amended: when the bytes of a sequence of reads on a fresh connection decode
  as a JSON document and the bytes accumulated after each earlier read do not decode,
  the document is handed to the dispatch logic exactly once, by the last read, and the
  accumulator is empty afterwards. And any read after which the accumulated bytes do not
  decode dispatches nothing, keeps the accumulated bytes for the next read and changes
  nothing else.
\<close>

theorem C9_reassembly:
  "(buffers p socket = Some [] \<and> chunks \<noteq> [] \<and> decode rt (concat chunks) = Inr doc
      \<and> (\<forall>k. 0 < k \<and> k < length chunks \<longrightarrow> (\<exists>e. decode rt (concat (take k chunks)) = Inl e))
    \<longrightarrow> (\<exists>p' evs err. feed rt p socket chunks = (p', evs) \<and> length evs = length chunks
           \<and> filter is_dispatch evs = [Dispatched doc err] \<and> last evs = Dispatched doc err
           \<and> buffers p' socket = Some []))
   \<and> (buffers q socket = Some buf \<and> decode rt (buf @ new_data) = Inl e
    \<longrightarrow> (\<exists>q' ev. read_client rt q (Some socket) new_data = (q', ev) \<and> \<not> is_dispatch ev
           \<and> buffers q' socket = Some (buf @ new_data) \<and> written q' = written q
           \<and> disconnecting q' = disconnecting q \<and> scheduled q' = scheduled q
           \<and> window q' = window q))"
proof (intro conjI impI)
  assume a: "buffers p socket = Some [] \<and> chunks \<noteq> [] \<and> decode rt (concat chunks) = Inr doc
      \<and> (\<forall>k. 0 < k \<and> k < length chunks \<longrightarrow> (\<exists>e. decode rt (concat (take k chunks)) = Inl e))"
  then have "buffers p socket = Some []" and "chunks \<noteq> []"
    and "decode rt ([] @ concat chunks) = Inr doc"
    and "\<forall>k. 0 < k \<and> k < length chunks \<longrightarrow> (\<exists>e. decode rt ([] @ concat (take k chunks)) = Inl e)"
    by simp_all
  then show "\<exists>p' evs err. feed rt p socket chunks = (p', evs) \<and> length evs = length chunks
           \<and> filter is_dispatch evs = [Dispatched doc err] \<and> last evs = Dispatched doc err
           \<and> buffers p' socket = Some []"
    by (rule feed_reassembles)
next
  assume "buffers q socket = Some buf \<and> decode rt (buf @ new_data) = Inl e"
  then have "read_client rt q (Some socket) new_data =
           (q\<lparr>buffers := (buffers q)(socket \<mapsto> buf @ new_data)\<rparr>,
            if e = JSONDecodeError then Incomplete else Failed e)"
    using read_client_incomplete by blast
  then show "\<exists>q' ev. read_client rt q (Some socket) new_data = (q', ev) \<and> \<not> is_dispatch ev
           \<and> buffers q' socket = Some (buf @ new_data) \<and> written q' = written q
           \<and> disconnecting q' = disconnecting q \<and> scheduled q' = scheduled q
           \<and> window q' = window q"
    by (simp add: not_dispatch_incomplete)
qed

lemma decode_digits:
  "literal_decode ''1'' = Inr (JInt 1)" "literal_decode ''2'' = Inr (JInt 2)"
  "literal_decode ''12'' = Inr (JInt 12)"
  by (simp_all add: literal_decode_def py_strip_def is_digit_def decimal_value_def)

lemma decode_open_brace: "literal_decode ''{'' = Inl JSONDecodeError"
  by (simp add: literal_decode_def py_strip_def is_digit_def)

text \<open>
  Claim C9, as stated, holds for every split of a valid document. The document \<open>12\<close>
  split into the reads \<open>1\<close> and \<open>2\<close> is not reassembled: \<open>1\<close> is a JSON document itself and
  is dispatched by the first read, \<open>2\<close> by the second, and \<open>12\<close> never.
\<close>

theorem C9_prefix_counterexample:
  "snd (feed
       \<lparr>decode = literal_decode, loads = (\<lambda>s. Inl JSONDecodeError),
        render = (\<lambda>c i e. Inl ValueError), default_pixmap = (0::nat)\<rparr>
       \<lparr>buffers = [7 \<mapsto> []], written = (\<lambda>s. []), disconnecting = {}, scheduled = [],
        window = \<lparr>active_border = JStr ''token'', effects = []\<rparr>\<rparr>
       7 [''1'', ''2''])
     = [Dispatched (JInt 1) (Some AttributeError), Dispatched (JInt 2) (Some AttributeError)]
   \<and> literal_decode (concat [''1'', ''2'']) = Inr (JInt 12)"
proof -
  have "dispatch rt (JInt n) = Inl AttributeError" for rt :: "nat runtime" and n
    by (rule dispatch_not_object) simp
  then show ?thesis
    by (simp add: read_client_def Let_def decode_digits)
qed

theorem C9_reassembly_witness:
  "(\<exists>p' evs err. feed
       \<lparr>decode = literal_decode, loads = (\<lambda>s. Inl JSONDecodeError),
        render = (\<lambda>c i e. Inl ValueError), default_pixmap = (0::nat)\<rparr>
       \<lparr>buffers = [7 \<mapsto> []], written = (\<lambda>s. []), disconnecting = {}, scheduled = [],
        window = \<lparr>active_border = JStr ''token'', effects = []\<rparr>\<rparr>
       7 [''{'', ''}''] = (p', evs) \<and> length evs = 2
       \<and> filter is_dispatch evs = [Dispatched (JObj []) err] \<and> buffers p' 7 = Some [])
   \<and> (\<exists>q' ev. read_client
       \<lparr>decode = literal_decode, loads = (\<lambda>s. Inl JSONDecodeError),
        render = (\<lambda>c i e. Inl ValueError), default_pixmap = (0::nat)\<rparr>
       \<lparr>buffers = [7 \<mapsto> []], written = (\<lambda>s. []), disconnecting = {}, scheduled = [],
        window = \<lparr>active_border = JStr ''token'', effects = []\<rparr>\<rparr>
       (Some 7) ''{'' = (q', ev) \<and> \<not> is_dispatch ev \<and> buffers q' 7 = Some ''{'')"
proof -
  let ?rt = "\<lparr>decode = literal_decode, loads = (\<lambda>s. Inl JSONDecodeError),
        render = (\<lambda>c i e. Inl ValueError), default_pixmap = (0::nat)\<rparr>"
  let ?p = "\<lparr>buffers = [7 \<mapsto> []], written = (\<lambda>s. []), disconnecting = {}, scheduled = [],
        window = \<lparr>active_border = JStr ''token'', effects = []\<rparr>\<rparr>"
  have prefixes: "\<forall>k. 0 < k \<and> k < length [''{'', ''}'']
      \<longrightarrow> (\<exists>e. decode ?rt (concat (take k [''{'', ''}''])) = Inl e)"
  proof (intro allI impI)
    fix k :: nat
    assume "0 < k \<and> k < length [''{'', ''}'']"
    then have "k = 1"
      by simp
    then show "\<exists>e. decode ?rt (concat (take k [''{'', ''}''])) = Inl e"
      by (simp add: decode_open_brace)
  qed
  have whole: "buffers ?p 7 = Some [] \<and> [''{'', ''}''] \<noteq> []
      \<and> decode ?rt (concat [''{'', ''}'']) = Inr (JObj [])
      \<and> (\<forall>k. 0 < k \<and> k < length [''{'', ''}'']
            \<longrightarrow> (\<exists>e. decode ?rt (concat (take k [''{'', ''}''])) = Inl e))"
    using prefixes by (simp add: decode_empty_object)
  have part: "buffers ?p 7 = Some [] \<and> decode ?rt ([] @ ''{'') = Inl JSONDecodeError"
    by (simp add: decode_open_brace)
  note t = C9_reassembly [of ?p 7 "[''{'', ''}'']" ?rt "JObj []" ?p "[]" "''{''" JSONDecodeError]
  have one: "\<exists>p' evs err. feed ?rt ?p 7 [''{'', ''}''] = (p', evs)
       \<and> length evs = length [''{'', ''}'']
       \<and> filter is_dispatch evs = [Dispatched (JObj []) err] \<and> last evs = Dispatched (JObj []) err
       \<and> buffers p' 7 = Some []"
    by (rule t [THEN conjunct1, THEN mp, OF whole])
  note two = t [THEN conjunct2, THEN mp, OF part]
  from one have one': "\<exists>p' evs err. feed ?rt ?p 7 [''{'', ''}''] = (p', evs) \<and> length evs = 2
       \<and> filter is_dispatch evs = [Dispatched (JObj []) err] \<and> buffers p' 7 = Some []"
    apply (elim exE conjE)
    subgoal for p' evs err
      by (intro exI [of _ p'] exI [of _ evs] exI [of _ err] conjI) simp_all
    done
  from two have two': "\<exists>q' ev. read_client ?rt ?p (Some 7) ''{'' = (q', ev) \<and> \<not> is_dispatch ev
       \<and> buffers q' 7 = Some ''{''"
    apply (elim exE conjE)
    subgoal for q' ev
      by (intro exI [of _ q'] exI [of _ ev] conjI) simp_all
    done
  from one' two' show ?thesis
    by (intro conjI)
qed

end
